theory Spec2Isabelle
  imports Complex_Main "HOL-Library.Monad_Syntax"
begin

section \<open>Python values shared by the model\<close>

text \<open>
  Exceptions of the Python runtime and of the libraries that the modelled functions can
  raise. A function that can raise returns \<open>py_error + 'a\<close>, with \<open>Inl\<close> the exception.
\<close>

datatype py_error =
    IndexError
  | TypeError
  | ValueError
  | KeyError
  | AttributeError
  | ExpatError
  | ParsingInterrupted
  | ValidationError
  | HTTPError string
  | ConfigurationNotFound
  | FileNotFoundError
  | PullObservationsBadXMLException string

text \<open>
  A \<open>timedelta\<close> is a number of microseconds; \<open>timedelta.days\<close> is its
  normalised day component, the floor of the duration divided by one day (so
  \<open>timedelta(hours=-1).days = -1\<close>).
\<close>

type_synonym timedelta = int

definition us_per_hour :: int where
  "us_per_hour = 3600000000"

definition us_per_day :: int where
  "us_per_day = 86400000000"

definition days :: "timedelta \<Rightarrow> int" where
  "days td = td div us_per_day"

section \<open>client.py: the response models\<close>

text \<open>
  A \<open>datetime\<close> as pydantic parses it: the clock fields as a position in microseconds,
  and a \<open>tzinfo\<close> that is absent (a naive value) or a fixed offset from UTC.
  \<open>datetime.replace(tzinfo=...)\<close> keeps the clock fields and sets the offset.
  A Python \<open>float\<close> is carried as a real number: the model only passes coordinates
  through and compares them with the declared bounds.
\<close>

record datetime =
  clock :: int
  tzinfo :: "timedelta option"

type_synonym py_float = real

definition replace_tzinfo :: "datetime \<Rightarrow> timedelta \<Rightarrow> datetime" where
  "replace_tzinfo dt tz = dt\<lparr>tzinfo := Some tz\<rparr>"

record DataResponse =
  ats_serial_num :: string
  longitude :: "py_float option"
  latitude :: "py_float option"
  date_year_and_julian :: datetime
  num_sats :: "string option"
  hdop :: "string option"
  fix_time :: "string option"
  dimension :: "string option"
  activity :: "string option"
  temperature :: "string option"
  mortality :: "bool option"
  low_batt_voltage :: "bool option"

record TransmissionsResponse =
  date_sent :: datetime
  collar_serial_num :: string
  number_fixes :: "int option"
  batt_voltage :: "py_float option"
  mortality :: "string option"
  break_off :: "string option"
  sat_errors :: "string option"
  year_base :: "string option"
  day_base :: "string option"
  gmt_offset :: "int option"
  low_batt_voltage :: "bool option"

section \<open>client.py: closest_transmission\<close>

subsection \<open>Comparing, subtracting and sorting datetimes\<close>

text \<open>
  A naive datetime is ordered by its clock fields, an aware one by its instant (the
  clock fields less the offset). \<open>>=\<close> and \<open>-\<close> between a naive and an aware
  datetime raise \<open>TypeError\<close>; \<open>==\<close> between them is false. \<open>sorted\<close> is stable and
  raises the comparison's \<open>TypeError\<close> when the list mixes the two kinds.
\<close>

definition is_aware :: "datetime \<Rightarrow> bool" where
  "is_aware dt = (tzinfo dt \<noteq> None)"

definition instant :: "datetime \<Rightarrow> int" where
  "instant dt = (case tzinfo dt of None \<Rightarrow> clock dt | Some utcoffset \<Rightarrow> clock dt - utcoffset)"

definition dt_ge :: "datetime \<Rightarrow> datetime \<Rightarrow> py_error + bool" where
  "dt_ge a b = (if is_aware a = is_aware b then Inr (instant a \<ge> instant b) else Inl TypeError)"

definition dt_sub :: "datetime \<Rightarrow> datetime \<Rightarrow> py_error + timedelta" where
  "dt_sub a b = (if is_aware a = is_aware b then Inr (instant a - instant b) else Inl TypeError)"

definition dt_eq :: "datetime \<Rightarrow> datetime \<Rightarrow> bool" where
  "dt_eq a b = (is_aware a = is_aware b \<and> instant a = instant b)"

definition py_sorted :: "datetime list \<Rightarrow> py_error + datetime list" where
  "py_sorted ds =
     (if list_all is_aware ds \<or> list_all (\<lambda>d. \<not> is_aware d) ds
      then Inr (sort_key instant ds)
      else Inl TypeError)"

text \<open>\<open>xs[-1]\<close>\<close>

definition py_last :: "'b list \<Rightarrow> py_error + 'b" where
  "py_last xs = (if xs = [] then Inl IndexError else Inr (last xs))"

subsection \<open>Reading the DateSent attribute\<close>

text \<open>
  The function reads \<open>t.DateSent\<close> on every element. What that expression gives
  depends on the class of the element, and is a parameter of the model: the datetime
  held by the attribute, or the exception the lookup raises.

  The only transmission class of the repository, \<open>TransmissionsResponse\<close>, declares the
  field \<open>date_sent\<close> with \<open>DateSent\<close> as its alias; the alias names the key of the
  parsed row and is no attribute of the object (the sibling \<open>extract_gmt_offsets\<close>
  reads the fields under their names, \<open>collar_serial_num\<close> and \<open>gmt_offset\<close>). On a
  parsed transmission the lookup therefore raises \<open>AttributeError\<close>.
\<close>

definition TransmissionsResponse_DateSent :: "'a TransmissionsResponse_scheme \<Rightarrow> py_error + datetime" where
  "TransmissionsResponse_DateSent t = Inl AttributeError"

text \<open>
  An element class on which the lookup works, with the attribute holding the sent date
  (the repository builds no such object).
\<close>

definition readable_DateSent :: "'a TransmissionsResponse_scheme \<Rightarrow> py_error + datetime" where
  "readable_DateSent t = Inr (date_sent t)"

subsection \<open>The function\<close>

text \<open>\<open>[t.DateSent for t in transmissions]\<close>\<close>

fun dates_of :: "('t \<Rightarrow> py_error + datetime) \<Rightarrow> 't list \<Rightarrow> py_error + datetime list" where
  "dates_of attr [] = Inr []"
| "dates_of attr (t # ts) =
     (case attr t of
        Inl e \<Rightarrow> Inl e
      | Inr d \<Rightarrow> (case dates_of attr ts of Inl e \<Rightarrow> Inl e | Inr ds \<Rightarrow> Inr (d # ds)))"

text \<open>
  \<open>[t for t in transmissions if t.DateSent == date][0]\<close>: the whole list is built
  before its first element is taken.
\<close>

fun select_dated :: "('t \<Rightarrow> py_error + datetime) \<Rightarrow> 't list \<Rightarrow> datetime \<Rightarrow> py_error + 't list" where
  "select_dated attr [] date = Inr []"
| "select_dated attr (t # ts) date =
     (case attr t of
        Inl e \<Rightarrow> Inl e
      | Inr d \<Rightarrow>
          (case select_dated attr ts date of
             Inl e \<Rightarrow> Inl e
           | Inr rest \<Rightarrow> Inr (if dt_eq d date then t # rest else rest)))"

definition first_dated :: "('t \<Rightarrow> py_error + datetime) \<Rightarrow> 't list \<Rightarrow> datetime \<Rightarrow> py_error + 't" where
  "first_dated attr transmissions date =
     (case select_dated attr transmissions date of
        Inl e \<Rightarrow> Inl e
      | Inr [] \<Rightarrow> Inl IndexError
      | Inr (t # _) \<Rightarrow> Inr t)"

text \<open>
  The \<open>for date in sorted_list\<close> loop, with \<open>previous_date\<close> as its state; the first
  equation is the statement after the loop.
\<close>

fun scan_dates ::
  "('t \<Rightarrow> py_error + datetime) \<Rightarrow> 't list \<Rightarrow> datetime \<Rightarrow> datetime list \<Rightarrow> datetime \<Rightarrow>
   datetime list \<Rightarrow> py_error + 't" where
  "scan_dates attr transmissions test_date sorted_list previous_date [] =
     (case py_last sorted_list of
        Inl e \<Rightarrow> Inl e
      | Inr m \<Rightarrow> first_dated attr transmissions m)"
| "scan_dates attr transmissions test_date sorted_list previous_date (date # rest) =
     (case dt_ge date test_date of
        Inl e \<Rightarrow> Inl e
      | Inr True \<Rightarrow>
          (case dt_sub date test_date of
             Inl e \<Rightarrow> Inl e
           | Inr to_date \<Rightarrow>
               (case dt_sub previous_date test_date of
                  Inl e \<Rightarrow> Inl e
                | Inr to_previous \<Rightarrow>
                    (if \<bar>days to_date\<bar> < \<bar>days to_previous\<bar>
                     then first_dated attr transmissions date
                     else first_dated attr transmissions previous_date)))
      | Inr False \<Rightarrow> scan_dates attr transmissions test_date sorted_list date rest)"

definition closest_transmission ::
  "('t \<Rightarrow> py_error + datetime) \<Rightarrow> 't list \<Rightarrow> datetime \<Rightarrow> py_error + 't" where
  "closest_transmission attr transmissions test_date =
     (case dates_of attr transmissions of
        Inl e \<Rightarrow> Inl e
      | Inr dates \<Rightarrow>
          (case py_sorted dates of
             Inl e \<Rightarrow> Inl e
           | Inr sorted_list \<Rightarrow>
               (case py_last sorted_list of
                  Inl e \<Rightarrow> Inl e
                | Inr previous_date \<Rightarrow>
                    scan_dates attr transmissions test_date sorted_list previous_date sorted_list)))"

subsection \<open>The lookup as the specification words it\<close>

text \<open>
  The specification's \<open>findNearestTransmission\<close>, written from its sentences and not
  from the loop, over the position in time of each transmission: the dates sorted
  ascending, the first date at or after the target, the date scanned just before it (the
  maximum date when nothing was scanned), and the comparison
  \<open>|d - targetDate| < |previousDate - targetDate|\<close>.
\<close>

definition findNearestTransmission :: "('t \<Rightarrow> int) \<Rightarrow> 't list \<Rightarrow> int \<Rightarrow> 't option" where
  "findNearestTransmission date_of transmissions targetDate =
     (let dates = sort (map date_of transmissions);
          maxDate = Max (set dates)
      in case find (\<lambda>d. targetDate \<le> d) dates of
           None \<Rightarrow> find (\<lambda>t. date_of t = maxDate) transmissions
         | Some d \<Rightarrow>
             (let scanned = takeWhile (\<lambda>x. \<not> targetDate \<le> x) dates;
                  previousDate = (if scanned = [] then maxDate else last scanned)
              in if \<bar>d - targetDate\<bar> < \<bar>previousDate - targetDate\<bar>
                 then find (\<lambda>t. date_of t = d) transmissions
                 else find (\<lambda>t. date_of t = previousDate) transmissions))"

text \<open>The neighbours of a target among a list of dates.\<close>

definition dates_before :: "int list \<Rightarrow> int \<Rightarrow> int list" where
  "dates_before dates targetDate = filter (\<lambda>d. d < targetDate) dates"

definition dates_at_or_after :: "int list \<Rightarrow> int \<Rightarrow> int list" where
  "dates_at_or_after dates targetDate = filter (\<lambda>d. targetDate \<le> d) dates"

definition is_neighbour_date :: "int list \<Rightarrow> int \<Rightarrow> int \<Rightarrow> bool" where
  "is_neighbour_date dates targetDate d \<longleftrightarrow>
     (dates_at_or_after dates targetDate \<noteq> [] \<and> d = Min (set (dates_at_or_after dates targetDate))) \<or>
     (dates_before dates targetDate \<noteq> [] \<and> d = Max (set (dates_before dates targetDate)))"

text \<open>Parsed transmissions with a naive sent date, every optional field absent.\<close>

definition transmission_sent_at :: "int \<Rightarrow> TransmissionsResponse" where
  "transmission_sent_at c =
     \<lparr>date_sent = \<lparr>clock = c, tzinfo = None\<rparr>, collar_serial_num = ''A'', number_fixes = None,
      batt_voltage = None, mortality = None, break_off = None, sat_errors = None,
      year_base = None, day_base = None, gmt_offset = None, low_batt_voltage = None\<rparr>"

definition naive_at :: "int \<Rightarrow> datetime" where
  "naive_at c = \<lparr>clock = c, tzinfo = None\<rparr>"

definition aware_at :: "int \<Rightarrow> timedelta \<Rightarrow> datetime" where
  "aware_at c utcoffset = \<lparr>clock = c, tzinfo = Some utcoffset\<rparr>"

definition sent_instant :: "'a TransmissionsResponse_scheme \<Rightarrow> int" where
  "sent_instant t = instant (date_sent t)"

section \<open>handlers.py: logging, offsets and the transform\<close>

datatype py_value = Str string | Bool bool

datatype log_level = INFO | WARNING | ERROR

record log_record =
  level :: log_level
  message :: string
  extra :: "(string \<times> py_value) list"

text \<open>\<open>str(n)\<close> of an integer, as an f-string renders it.\<close>

definition digit_char :: "nat \<Rightarrow> char" where
  "digit_char n = char_of (48 + n)"

function str_nat :: "nat \<Rightarrow> string" where
  "str_nat n = (if n < 10 then [digit_char n] else str_nat (n div 10) @ [digit_char (n mod 10)])"
  by pat_completeness auto
termination
  by (relation "measure id") auto

declare str_nat.simps [simp del]

definition str_int :: "int \<Rightarrow> string" where
  "str_int i = (if i < 0 then CHR ''-'' # str_nat (nat (- i)) else str_nat (nat i))"

subsection \<open>extract_gmt_offsets\<close>

text \<open>
  \<open>dict.setdefault(k, v)\<close> stores \<open>v\<close> only when the key is absent; a key that is
  present keeps its value, also when that value is \<open>None\<close>. The stored values are
  \<open>Optional[int]\<close>, so the dictionary maps a key to an \<open>int option\<close>.
\<close>

definition setdefault :: "('k \<rightharpoonup> 'v) \<Rightarrow> 'k \<Rightarrow> 'v \<Rightarrow> ('k \<rightharpoonup> 'v)" where
  "setdefault d k v = (case d k of None \<Rightarrow> d(k \<mapsto> v) | Some _ \<Rightarrow> d)"

text \<open>\<open>dict.get(k, default)\<close>\<close>

definition dict_get :: "('k \<rightharpoonup> 'v) \<Rightarrow> 'k \<Rightarrow> 'v \<Rightarrow> 'v" where
  "dict_get d k dflt = (case d k of None \<Rightarrow> dflt | Some v \<Rightarrow> v)"

fun accumulate ::
  "(string \<rightharpoonup> int option) \<Rightarrow> 'a TransmissionsResponse_scheme list \<Rightarrow> (string \<rightharpoonup> int option)" where
  "accumulate accumulator [] = accumulator"
| "accumulate accumulator (item # rest) =
     accumulate (setdefault accumulator (collar_serial_num item) (gmt_offset item)) rest"

text \<open>The function returns the log records it emits together with its value.\<close>

definition extract_gmt_offsets ::
  "'a TransmissionsResponse_scheme list \<Rightarrow> string \<Rightarrow> log_record list \<times> (string \<rightharpoonup> int option)" where
  "extract_gmt_offsets transmissions integration_id =
     (if transmissions \<noteq> [] then ([], accumulate Map.empty transmissions)
      else
        ([\<lparr>level = WARNING,
            message = ''No transmissions were pulled for integration ID: '' @ integration_id @ ''.'',
            extra = []\<rparr>,
          \<lparr>level = WARNING,
            message = ''-- Setting GMT offset to 0 for devices in integration ID: '' @ integration_id @ ''.'',
            extra = []\<rparr>],
         Map.empty))"

subsection \<open>filter_and_transform\<close>

text \<open>
  \<open>datetime.timezone(offset)\<close> accepts an offset strictly between minus and plus 24
  hours and raises \<open>ValueError\<close> otherwise. \<open>datetime.timedelta(hours=h)\<close> of an integer
  is exact.
\<close>

definition timedelta_hours :: "int \<Rightarrow> timedelta" where
  "timedelta_hours h = h * us_per_hour"

definition py_timezone :: "timedelta \<Rightarrow> py_error + timedelta" where
  "py_timezone time_delta =
     (if - us_per_day < time_delta \<and> time_delta < us_per_day then Inr time_delta
      else Inl ValueError)"

record location =
  lat :: "py_float option"
  lon :: "py_float option"

record observation =
  source :: string
  source_name :: string
  type :: string
  recorded_at :: datetime
  location :: location
  additional :: "(string \<times> py_value) list"

text \<open>
  \<open>vehicle.dict()\<close> without the four main fields and without the \<open>None\<close> values, in
  field order.
\<close>

definition additional_fields :: "DataResponse \<Rightarrow> (string \<times> py_value) list" where
  "additional_fields vehicle =
     List.map_filter (\<lambda>(key, v). map_option (\<lambda>x. (key, x)) v)
       [(''num_sats'', map_option Str (num_sats vehicle)),
        (''hdop'', map_option Str (hdop vehicle)),
        (''fix_time'', map_option Str (fix_time vehicle)),
        (''dimension'', map_option Str (dimension vehicle)),
        (''activity'', map_option Str (activity vehicle)),
        (''temperature'', map_option Str (temperature vehicle)),
        (''mortality'', map_option Bool (DataResponse.mortality vehicle)),
        (''low_batt_voltage'', map_option Bool (DataResponse.low_batt_voltage vehicle))]"

text \<open>
  The body of the \<open>for vehicle in vehicles\<close> loop: the timezone is built in every
  iteration, the vehicle's timestamp is replaced by the offset-aware one, and the
  observation reads the updated vehicle.
\<close>

definition transform_vehicle :: "int \<Rightarrow> DataResponse \<Rightarrow> py_error + observation" where
  "transform_vehicle gmt_offset' vehicle =
     (case py_timezone (timedelta_hours gmt_offset') of
        Inl e \<Rightarrow> Inl e
      | Inr timezone_object \<Rightarrow>
          (let vehicle' = vehicle\<lparr>date_year_and_julian :=
                            replace_tzinfo (date_year_and_julian vehicle) timezone_object\<rparr>
           in Inr \<lparr>source = ats_serial_num vehicle',
                   source_name = ats_serial_num vehicle',
                   type = ''tracking-device'',
                   recorded_at = date_year_and_julian vehicle',
                   location = \<lparr>lat = latitude vehicle', lon = longitude vehicle'\<rparr>,
                   additional = additional_fields vehicle'\<rparr>))"

fun transform_vehicles :: "int \<Rightarrow> observation list \<Rightarrow> DataResponse list \<Rightarrow> py_error + observation list" where
  "transform_vehicles gmt_offset' transformed_data [] = Inr transformed_data"
| "transform_vehicles gmt_offset' transformed_data (vehicle # rest) =
     (case transform_vehicle gmt_offset' vehicle of
        Inl e \<Rightarrow> Inl e
      | Inr data \<Rightarrow> transform_vehicles gmt_offset' (transformed_data @ [data]) rest)"

definition invalid_offset_record :: "string \<Rightarrow> int \<Rightarrow> string \<Rightarrow> string \<Rightarrow> log_record" where
  "invalid_offset_record serial_num gmt_offset' integration_id action_id =
     \<lparr>level = ERROR,
      message = ''GMT offset invalid for device '' @ [CHR 0x27] @ serial_num @ [CHR 0x27] @ '' value '' @ [CHR 0x27] @ str_int gmt_offset' @ [CHR 0x27],
      extra = [(''needs_attention'', Bool True),
               (''integration_id'', Str integration_id),
               (''action_id'', Str action_id)]\<rparr>"

text \<open>
  The offset argument is whatever the caller looked up in the offsets dictionary: an
  integer or \<open>None\<close>. \<open>abs(None)\<close> raises \<open>TypeError\<close> before anything is logged.
\<close>

definition filter_and_transform ::
  "string \<Rightarrow> DataResponse list \<Rightarrow> int option \<Rightarrow> string \<Rightarrow> string \<Rightarrow>
   log_record list \<times> (py_error + observation list)" where
  "filter_and_transform serial_num vehicles gmt_offset' integration_id action_id =
     (case gmt_offset' of
        None \<Rightarrow> ([], Inl TypeError)
      | Some g \<Rightarrow>
          (if \<bar>g\<bar> > 24
           then ([invalid_offset_record serial_num g integration_id action_id],
                 transform_vehicles 0 [] vehicles)
           else ([], transform_vehicles g [] vehicles)))"

subsection \<open>Records with only the required fields set\<close>

text \<open>
  What the pydantic models give when a row carries the required fields and, for a
  transmission, a \<open>GmtOffset\<close>: every other optional field is \<open>None\<close>.
\<close>

definition transmission_row :: "string \<Rightarrow> int option \<Rightarrow> TransmissionsResponse" where
  "transmission_row serial g =
     \<lparr>date_sent = \<lparr>clock = 0, tzinfo = None\<rparr>, collar_serial_num = serial, number_fixes = None,
      batt_voltage = None, mortality = None, break_off = None, sat_errors = None,
      year_base = None, day_base = None, gmt_offset = g, low_batt_voltage = None\<rparr>"

definition vehicle_row :: "string \<Rightarrow> int \<Rightarrow> DataResponse" where
  "vehicle_row serial c =
     \<lparr>ats_serial_num = serial, longitude = None, latitude = None,
      date_year_and_julian = \<lparr>clock = c, tzinfo = None\<rparr>, num_sats = None, hdop = None,
      fix_time = None, dimension = None, activity = None, temperature = None,
      DataResponse.mortality = None, DataResponse.low_batt_voltage = None\<rparr>"

text \<open>
  The observation expected for a vehicle at a fixed offset: the clock fields of the
  vehicle's timestamp, unchanged, with \<open>tzinfo\<close> set to the offset.
\<close>

definition observation_of :: "timedelta \<Rightarrow> DataResponse \<Rightarrow> observation" where
  "observation_of tz vehicle =
     \<lparr>source = ats_serial_num vehicle, source_name = ats_serial_num vehicle,
      type = ''tracking-device'',
      recorded_at = \<lparr>clock = clock (date_year_and_julian vehicle), tzinfo = Some tz\<rparr>,
      location = \<lparr>lat = latitude vehicle, lon = longitude vehicle\<rparr>,
      additional = additional_fields vehicle\<rparr>"

section \<open>handlers.py: action_pull_observations\<close>

text \<open>
  The action talks to collaborators that are not part of the modelled code: the vendor
  client (module \<open>ats_client\<close>, whose two fetch functions return the raw XML text that
  the action writes to a file), the clock, the local file system, the cloud file
  storage and the state manager. The first three are an environment the action reads:
  what the configuration lookups give, what each fetch returns or raises on the n-th
  attempt, and the timestamp taken on the n-th attempt. The last three are state, passed
  through the action and returned updated: files written and blobs uploaded are kept,
  and \<open>group_add\<close> inserts into a named set. Storage and state operations succeed
  whenever their input exists; the exceptions of interest are those of the
  configuration lookups and of the fetches.
\<close>

record integration =
  id_str :: string
  integration_repr :: string

record AuthenticateConfig =
  username :: string
  password :: string

record PullObservationsConfig =
  data_endpoint :: string
  transmissions_endpoint :: string

record pull_environment =
  get_auth_config :: "py_error + AuthenticateConfig"
  get_pull_config :: "py_error + PullObservationsConfig"
  transmissions_fetch :: "nat \<Rightarrow> py_error + string"
  data_fetch :: "nat \<Rightarrow> py_error + string"
  utc_timestamp :: "nat \<Rightarrow> string"

record blob =
  blob_integration_id :: string
  blob_name :: string
  blob_content :: string
  blob_metadata :: "(string \<times> string) list"

record services =
  local_files :: "string \<rightharpoonup> string"
  file_storage :: "blob list"
  state_manager :: "string \<Rightarrow> string set"
  logged :: "log_record list"

definition PENDING_FILES :: string where
  "PENDING_FILES = ''ats_pending_files''"

definition PROCESSED_FILES :: string where
  "PROCESSED_FILES = ''ats_processed_files''"

text \<open>\<open>async with aiofiles.open(path, "w") as f: await f.write(text)\<close>\<close>

definition write_file :: "string \<Rightarrow> string \<Rightarrow> services \<Rightarrow> services" where
  "write_file path text s = s\<lparr>local_files := (local_files s)(path \<mapsto> text)\<rparr>"

definition upload_file ::
  "string \<Rightarrow> string \<Rightarrow> string \<Rightarrow> (string \<times> string) list \<Rightarrow> services \<Rightarrow> services \<times> (py_error + unit)" where
  "upload_file iid local_file_path destination_blob_name metadata s =
     (case local_files s local_file_path of
        None \<Rightarrow> (s, Inl FileNotFoundError)
      | Some text \<Rightarrow>
          (s\<lparr>file_storage := file_storage s @
                [\<lparr>blob_integration_id = iid, blob_name = destination_blob_name,
                  blob_content = text, blob_metadata = metadata\<rparr>]\<rparr>,
           Inr ()))"

definition group_add :: "string \<Rightarrow> string list \<Rightarrow> services \<Rightarrow> services" where
  "group_add group_name values s =
     s\<lparr>state_manager := (state_manager s)(group_name := state_manager s group_name \<union> set values)\<rparr>"

definition log_call :: "log_record \<Rightarrow> services \<Rightarrow> services" where
  "log_call r s = s\<lparr>logged := logged s @ [r]\<rparr>"

text \<open>The body of \<open>with attempt:\<close>, on the n-th attempt.\<close>

definition pull_attempt ::
  "pull_environment \<Rightarrow> integration \<Rightarrow> nat \<Rightarrow> services \<Rightarrow> services \<times> (py_error + unit)" where
  "pull_attempt env integ n s =
     (let iid = id_str integ in
      case get_auth_config env of
        Inl e \<Rightarrow> (s, Inl e)
      | Inr auth_config \<Rightarrow>
      (case get_pull_config env of
        Inl e \<Rightarrow> (s, Inl e)
      | Inr config \<Rightarrow>
      (case transmissions_fetch env n of
        Inl e \<Rightarrow> (s, Inl e)
      | Inr transmissions_raw_xml \<Rightarrow>
      (let timestamp = utc_timestamp env n;
           transmissions_file_name = timestamp @ ''_'' @ iid @ ''_transmissions.xml'';
           s1 = write_file (''/tmp/'' @ transmissions_file_name) transmissions_raw_xml s
       in case upload_file iid (''/tmp/'' @ transmissions_file_name) transmissions_file_name
                 [(''integration_id'', iid), (''ats_username'', username auth_config)] s1 of
            (s2, Inl e) \<Rightarrow> (s2, Inl e)
          | (s2, Inr _) \<Rightarrow>
      (let data_points_file_name = timestamp @ ''_'' @ iid @ ''_data_points.xml'' in
       case get_pull_config env of
         Inl e \<Rightarrow> (s2, Inl e)
       | Inr config2 \<Rightarrow>
      (case data_fetch env n of
         Inl e \<Rightarrow> (s2, Inl e)
       | Inr data_points_raw_xml \<Rightarrow>
      (let s3 = write_file (''/tmp/'' @ data_points_file_name) data_points_raw_xml s2
       in case upload_file iid (''/tmp/'' @ data_points_file_name) data_points_file_name
                 [(''integration_id'', iid), (''ats_username'', username auth_config),
                  (''status'', ''pending'')] s3 of
            (s4, Inl e) \<Rightarrow> (s4, Inl e)
          | (s4, Inr _) \<Rightarrow> (group_add PENDING_FILES [data_points_file_name] s4, Inr ()))))))))"

text \<open>
  \<open>stamina.retry_context(on=httpx.HTTPError, attempts=3, ...)\<close>: an attempt that raises
  \<open>HTTPError\<close> is repeated while attempts remain; the last attempt's \<open>HTTPError\<close> and
  every other exception leave the loop.
\<close>

definition is_HTTPError :: "py_error \<Rightarrow> bool" where
  "is_HTTPError e = (case e of HTTPError _ \<Rightarrow> True | _ \<Rightarrow> False)"

fun retry_context ::
  "nat \<Rightarrow> pull_environment \<Rightarrow> integration \<Rightarrow> nat \<Rightarrow> services \<Rightarrow> services \<times> (py_error + unit)" where
  "retry_context 0 env integ n s = pull_attempt env integ n s"
| "retry_context (Suc remaining) env integ n s =
     (case pull_attempt env integ n s of
        (s', Inr u) \<Rightarrow> (s', Inr u)
      | (s', Inl e) \<Rightarrow>
          (if is_HTTPError e then retry_context remaining env integ (Suc n) s' else (s', Inl e)))"

definition str_error :: "py_error \<Rightarrow> string" where
  "str_error e = (case e of HTTPError text \<Rightarrow> text | _ \<Rightarrow> [])"

text \<open>
  The action itself (the \<open>activity_logger\<close> decorator wraps the call and is left out).
  \<open>observations_extracted\<close> is set to 0 at the start and returned at the end.
\<close>

definition action_pull_observations ::
  "pull_environment \<Rightarrow> integration \<Rightarrow> string \<Rightarrow> services \<Rightarrow> services \<times> (py_error + (string \<times> int) list)" where
  "action_pull_observations env integ action_config_repr s =
     (let s0 = log_call \<lparr>level = INFO,
                 message = ''Executing pull_observations action with integration '' @ integration_repr integ @
                           '' and action_config '' @ action_config_repr @ ''...'',
                 extra = []\<rparr> s;
          observations_extracted = 0
      in case retry_context 2 env integ 1 s0 of
           (s', Inl e) \<Rightarrow>
             (if is_HTTPError e
              then (log_call \<lparr>level = ERROR,
                      message = ''Error fetching data points/transmissions from ATS. Integration ID: '' @
                                id_str integ @ '' Exception: '' @ str_error e,
                      extra = [(''integration_id'', Str (id_str integ)),
                               (''attention_needed'', Bool True)]\<rparr> s',
                    Inl e)
              else (s', Inl e))
         | (s', Inr _) \<Rightarrow>
             (log_call \<lparr>level = INFO,
                message = ''-- Observations pulled with success for integration ID: '' @
                          id_str integ @ ''. --'',
                extra = []\<rparr> s',
              Inr [(''observations_extracted'', observations_extracted)]))"

text \<open>
  The two blobs a pull is to leave in storage: the raw text of each response, under the
  file name of the attempt, tagged with the integration identifier and the vendor
  username (and, for the data points, the pending status).
\<close>

definition transmissions_blob :: "integration \<Rightarrow> string \<Rightarrow> string \<Rightarrow> string \<Rightarrow> blob" where
  "transmissions_blob integ user timestamp xml =
     \<lparr>blob_integration_id = id_str integ,
      blob_name = timestamp @ ''_'' @ id_str integ @ ''_transmissions.xml'',
      blob_content = xml,
      blob_metadata = [(''integration_id'', id_str integ), (''ats_username'', user)]\<rparr>"

definition data_points_blob :: "integration \<Rightarrow> string \<Rightarrow> string \<Rightarrow> string \<Rightarrow> blob" where
  "data_points_blob integ user timestamp xml =
     \<lparr>blob_integration_id = id_str integ,
      blob_name = timestamp @ ''_'' @ id_str integ @ ''_data_points.xml'',
      blob_content = xml,
      blob_metadata = [(''integration_id'', id_str integ), (''ats_username'', user),
                       (''status'', ''pending'')]\<rparr>"

text \<open>An environment in which everything succeeds at once, and empty services.\<close>

definition calm_environment :: pull_environment where
  "calm_environment =
     \<lparr>get_auth_config = Inr \<lparr>username = ''vendor_user'', password = ''secret''\<rparr>,
      get_pull_config = Inr \<lparr>data_endpoint = ''https://vendor/data'',
                              transmissions_endpoint = ''https://vendor/transmissions''\<rparr>,
      transmissions_fetch = (\<lambda>n. Inr ''<DataSet>t</DataSet>''),
      data_fetch = (\<lambda>n. Inr ''<DataSet>d</DataSet>''),
      utc_timestamp = (\<lambda>n. ''20240101000000000000'')\<rparr>"

definition no_services :: services where
  "no_services = \<lparr>local_files = Map.empty, file_storage = [], state_manager = (\<lambda>g. {}), logged = []\<rparr>"

definition integration_7 :: integration where
  "integration_7 = \<lparr>id_str = ''7'', integration_repr = ''Integration(id=7)''\<rparr>"

text \<open>An environment whose data-points fetch fails with a transport error on the first attempt.\<close>

definition flaky_environment :: pull_environment where
  "flaky_environment =
     \<lparr>get_auth_config = Inr \<lparr>username = ''vendor_user'', password = ''secret''\<rparr>,
      get_pull_config = Inr \<lparr>data_endpoint = ''https://vendor/data'',
                              transmissions_endpoint = ''https://vendor/transmissions''\<rparr>,
      transmissions_fetch = (\<lambda>n. Inr ''<DataSet>t</DataSet>''),
      data_fetch = (\<lambda>n. if n = 1 then Inl (HTTPError ''ReadTimeout'') else Inr ''<DataSet>d</DataSet>''),
      utc_timestamp = (\<lambda>n. if n = 1 then ''20240101000000000000'' else ''20240101000010000000'')\<rparr>"

section \<open>The staging file state machine\<close>

text \<open>
  The handlers of this version contain no \<open>action_set_file_status\<close>; only its tests
  are present. The operation is therefore written from the specification (section 4.3
  and the test file), over the group store and the metadata store of the file storage.
  The group store's \<open>move\<close> is a collaborator that may raise, and is a parameter.
\<close>

text \<open>
  Modelled from the spec: the three lifecycle states with the values and group names the
  tests use (the \<open>FileStatus\<close> of the source has no in-progress member, and the
  in-progress group name is not declared there).
\<close>

datatype FileStatus = PENDING | IN_PROGRESS | PROCESSED

definition IN_PROGRESS_FILES :: string where
  "IN_PROGRESS_FILES = ''ats_in_progress_files''"

definition status_value :: "FileStatus \<Rightarrow> string" where
  "status_value st = (case st of PENDING \<Rightarrow> ''pending'' | IN_PROGRESS \<Rightarrow> ''in_progress''
                      | PROCESSED \<Rightarrow> ''processed'')"

definition status_group :: "FileStatus \<Rightarrow> string" where
  "status_group st = (case st of PENDING \<Rightarrow> PENDING_FILES | IN_PROGRESS \<Rightarrow> IN_PROGRESS_FILES
                      | PROCESSED \<Rightarrow> PROCESSED_FILES)"

record staging =
  groups :: "string \<Rightarrow> string set"
  blob_status :: "string \<times> string \<rightharpoonup> (string \<times> string) list"

record status_result =
  file_status :: string
  status_message :: string

type_synonym group_move_op =
  "string \<Rightarrow> string \<Rightarrow> string list \<Rightarrow> (string \<Rightarrow> string set) \<Rightarrow> py_error + (string \<Rightarrow> string set)"

text \<open>A store whose move works, and one whose move raises.\<close>

definition group_move :: group_move_op where
  "group_move from_group to_group values g =
     (let g1 = g(from_group := g from_group - set values)
      in Inr (g1(to_group := g1 to_group \<union> set values)))"

definition group_move_unavailable :: group_move_op where
  "group_move_unavailable from_group to_group values g = Inl (HTTPError ''Test exception'')"

text \<open>
  Modelled from the spec: \<open>getStatus\<close> (\<open>action_get_file_status\<close>, absent from the
  source) checks the three sets in the order Pending, InProgress, Processed and reports
  the first that holds the file name, or that none does.
\<close>

definition current_status :: "(string \<Rightarrow> string set) \<Rightarrow> string \<Rightarrow> FileStatus option" where
  "current_status g filename =
     (if filename \<in> g PENDING_FILES then Some PENDING
      else if filename \<in> g IN_PROGRESS_FILES then Some IN_PROGRESS
      else if filename \<in> g PROCESSED_FILES then Some PROCESSED
      else None)"

text \<open>
  Modelled from the spec: \<open>setStatus\<close> (\<open>action_set_file_status\<close>, absent from the
  source). A file found in a set is moved from it to the target's set and the target's
  value is returned; a file found in none is added to Pending, its stored metadata is
  set to pending, and the result says it was not found; a move that raises gives the
  pending state with a generic message, and the exception goes no further.
\<close>

definition action_set_file_status ::
  "group_move_op \<Rightarrow> string \<Rightarrow> string \<Rightarrow> FileStatus \<Rightarrow> staging \<Rightarrow> staging \<times> status_result" where
  "action_set_file_status move iid filename target s =
     (case current_status (groups s) filename of
        None \<Rightarrow>
          (s\<lparr>groups := (groups s)(PENDING_FILES := groups s PENDING_FILES \<union> {filename}),
             blob_status := (blob_status s)((iid, filename) \<mapsto> [(''status'', status_value PENDING)])\<rparr>,
           \<lparr>file_status = ''Not found'',
            status_message = ''File '' @ [CHR 0x27] @ filename @ [CHR 0x27] @
                             '' not found in any group. Moving file to PENDING status.''\<rparr>)
      | Some current \<Rightarrow>
          (case move (status_group current) (status_group target) [filename] (groups s) of
             Inl e \<Rightarrow>
               (s, \<lparr>file_status = status_value PENDING,
                    status_message = ''Error setting file status''\<rparr>)
           | Inr g' \<Rightarrow>
               (s\<lparr>groups := g'\<rparr>,
                \<lparr>file_status = status_value target,
                 status_message = ''File status for '' @ [CHR 0x27] @ filename @ [CHR 0x27] @
                                  '' in integration '' @ [CHR 0x27] @ iid @ [CHR 0x27] @
                                  '' set to '' @ [CHR 0x27] @ status_value target @ [CHR 0x27] @ ''.''\<rparr>)))"

text \<open>Two stores of the tests: nothing tracked, and one pending file.\<close>

definition empty_staging :: staging where
  "empty_staging = \<lparr>groups = (\<lambda>g. {}), blob_status = Map.empty\<rparr>"

definition one_pending :: staging where
  "one_pending =
     \<lparr>groups = (\<lambda>g. if g = PENDING_FILES then {''test_file.xml''} else {}),
      blob_status = Map.empty\<rparr>"

section \<open>client.py: the two endpoint functions\<close>

text \<open>
  What \<open>xmltodict.parse\<close> returns: nested dictionaries, lists (for a repeated
  element), strings and \<open>None\<close> (for an empty element). The parser itself and the
  HTTP call are collaborators: the functions below receive the outcome of the request
  and the parse function. The logging calls of the two functions are left out.
\<close>

datatype xml_value =
    XNone
  | XText string
  | XDict "(string \<times> xml_value) list"
  | XList "xml_value list"

text \<open>\<open>d[key]\<close>, \<open>d.get(key, default)\<close> and truthiness on these values.\<close>

definition py_getitem :: "xml_value \<Rightarrow> string \<Rightarrow> py_error + xml_value" where
  "py_getitem d key =
     (case d of
        XDict items \<Rightarrow> (case map_of items key of None \<Rightarrow> Inl KeyError | Some v \<Rightarrow> Inr v)
      | _ \<Rightarrow> Inl TypeError)"

definition py_get :: "xml_value \<Rightarrow> string \<Rightarrow> xml_value \<Rightarrow> py_error + xml_value" where
  "py_get d key dflt =
     (case d of
        XDict items \<Rightarrow> Inr (case map_of items key of None \<Rightarrow> dflt | Some v \<Rightarrow> v)
      | _ \<Rightarrow> Inl AttributeError)"

definition truthy :: "xml_value \<Rightarrow> bool" where
  "truthy v = (case v of XNone \<Rightarrow> False | XText s \<Rightarrow> s \<noteq> [] | XDict items \<Rightarrow> items \<noteq> []
               | XList xs \<Rightarrow> xs \<noteq> [])"

subsection \<open>The pydantic models as validators\<close>

text \<open>
  The conversions pydantic applies to a string (to a float, a datetime, an integer, a
  boolean) belong to the library and are parameters; \<open>None\<close> is a failed conversion.
  A validator returns \<open>None\<close> where pydantic raises \<open>ValidationError\<close>.
  A field is read under its alias and, failing that, under its name
  (\<open>allow_population_by_field_name\<close>).
\<close>

record coercions =
  to_float :: "string \<Rightarrow> py_float option"
  to_datetime :: "string \<Rightarrow> datetime option"
  to_int :: "string \<Rightarrow> int option"
  to_bool :: "string \<Rightarrow> bool option"

definition raw_field :: "(string \<times> xml_value) list \<Rightarrow> string \<Rightarrow> string \<Rightarrow> xml_value option" where
  "raw_field row alias name =
     (case map_of row alias of Some v \<Rightarrow> Some v | None \<Rightarrow> map_of row name)"

text \<open>A required field: present, not \<open>None\<close>, a string that converts.\<close>

definition required_field :: "(string \<Rightarrow> 'a option) \<Rightarrow> xml_value option \<Rightarrow> 'a option" where
  "required_field conv v = (case v of Some (XText s) \<Rightarrow> conv s | _ \<Rightarrow> None)"

text \<open>
  A field with default \<open>None\<close>: absent or \<open>None\<close> gives \<open>None\<close>; a string must
  convert; anything else is an error.
\<close>

definition optional_field :: "(string \<Rightarrow> 'a option) \<Rightarrow> xml_value option \<Rightarrow> 'a option option" where
  "optional_field conv v =
     (case v of
        None \<Rightarrow> Some None
      | Some XNone \<Rightarrow> Some None
      | Some (XText s) \<Rightarrow> (case conv s of None \<Rightarrow> None | Some x \<Rightarrow> Some (Some x))
      | Some _ \<Rightarrow> None)"

definition bounded_float :: "coercions \<Rightarrow> py_float \<Rightarrow> py_float \<Rightarrow> string \<Rightarrow> py_float option" where
  "bounded_float c lo hi s =
     (case to_float c s of
        None \<Rightarrow> None
      | Some x \<Rightarrow> if lo \<le> x \<and> x \<le> hi then Some x else None)"

definition validate_DataResponse :: "coercions \<Rightarrow> xml_value \<Rightarrow> DataResponse option" where
  "validate_DataResponse c row =
     (case row of
        XDict items \<Rightarrow>
          do {
            serial \<leftarrow> required_field Some (raw_field items ''AtsSerialNum'' ''ats_serial_num'');
            lon_v \<leftarrow> optional_field (bounded_float c (- 180) 360) (raw_field items ''Longitude'' ''longitude'');
            lat_v \<leftarrow> optional_field (bounded_float c (- 90) 90) (raw_field items ''Latitude'' ''latitude'');
            stamp \<leftarrow> required_field (to_datetime c) (raw_field items ''DateYearAndJulian'' ''date_year_and_julian'');
            sats \<leftarrow> optional_field Some (raw_field items ''NumSats'' ''num_sats'');
            hdop_v \<leftarrow> optional_field Some (raw_field items ''Hdop'' ''hdop'');
            fix_v \<leftarrow> optional_field Some (raw_field items ''FixTime'' ''fix_time'');
            dim_v \<leftarrow> optional_field Some (raw_field items ''Dimension'' ''dimension'');
            act_v \<leftarrow> optional_field Some (raw_field items ''Activity'' ''activity'');
            temp_v \<leftarrow> optional_field Some (raw_field items ''Temperature'' ''temperature'');
            mort_v \<leftarrow> optional_field (to_bool c) (raw_field items ''Mortality'' ''mortality'');
            low_v \<leftarrow> optional_field (to_bool c) (raw_field items ''LowBattVoltage'' ''low_batt_voltage'');
            Some \<lparr>ats_serial_num = serial, longitude = lon_v, latitude = lat_v,
                  date_year_and_julian = stamp, num_sats = sats, hdop = hdop_v, fix_time = fix_v,
                  dimension = dim_v, activity = act_v, temperature = temp_v,
                  DataResponse.mortality = mort_v, DataResponse.low_batt_voltage = low_v\<rparr>
          }
      | _ \<Rightarrow> None)"

definition validate_TransmissionsResponse :: "coercions \<Rightarrow> xml_value \<Rightarrow> TransmissionsResponse option" where
  "validate_TransmissionsResponse c row =
     (case row of
        XDict items \<Rightarrow>
          do {
            sent \<leftarrow> required_field (to_datetime c) (raw_field items ''DateSent'' ''date_sent'');
            serial \<leftarrow> required_field Some (raw_field items ''CollarSerialNum'' ''collar_serial_num'');
            fixes \<leftarrow> optional_field (to_int c) (raw_field items ''NumberFixes'' ''number_fixes'');
            volt \<leftarrow> optional_field (to_float c) (raw_field items ''BattVoltage'' ''batt_voltage'');
            mort_v \<leftarrow> optional_field Some (raw_field items ''Mortality'' ''mortality'');
            brk \<leftarrow> optional_field Some (raw_field items ''BreakOff'' ''break_off'');
            sat_v \<leftarrow> optional_field Some (raw_field items ''SatErrors'' ''sat_errors'');
            year_v \<leftarrow> optional_field Some (raw_field items ''YearBase'' ''year_base'');
            day_v \<leftarrow> optional_field Some (raw_field items ''DayBase'' ''day_base'');
            gmt \<leftarrow> optional_field (to_int c) (raw_field items ''GmtOffset'' ''gmt_offset'');
            low_v \<leftarrow> optional_field (to_bool c) (raw_field items ''LowBattVoltage'' ''low_batt_voltage'');
            Some \<lparr>date_sent = sent, collar_serial_num = serial, number_fixes = fixes,
                  batt_voltage = volt, mortality = mort_v, break_off = brk, sat_errors = sat_v,
                  year_base = year_v, day_base = day_v, gmt_offset = gmt, low_batt_voltage = low_v\<rparr>
          }
      | _ \<Rightarrow> None)"

text \<open>
  The \<open>pre=True\<close> validators \<open>validate_vehicles\<close> and \<open>validate_transmissions\<close>: a
  value that is not a list becomes the empty list.
\<close>

definition validate_vehicles :: "xml_value \<Rightarrow> xml_value list" where
  "validate_vehicles val = (case val of XList rows \<Rightarrow> rows | _ \<Rightarrow> [])"

definition validate_transmissions :: "xml_value \<Rightarrow> xml_value list" where
  "validate_transmissions val = (case val of XList rows \<Rightarrow> rows | _ \<Rightarrow> [])"

text \<open>\<open>parse_obj\<close> of the two wrapper models: every row must validate.\<close>

definition PullObservationsDataResponse_parse_obj :: "coercions \<Rightarrow> xml_value \<Rightarrow> DataResponse list option" where
  "PullObservationsDataResponse_parse_obj c val =
     those (map (validate_DataResponse c) (validate_vehicles val))"

definition PullObservationsTransmissionsResponse_parse_obj ::
  "coercions \<Rightarrow> xml_value \<Rightarrow> TransmissionsResponse list option" where
  "PullObservationsTransmissionsResponse_parse_obj c val =
     those (map (validate_TransmissionsResponse c) (validate_transmissions val))"

subsection \<open>get_data_endpoint_response and get_transmissions_endpoint_response\<close>

definition with_ids :: "string \<Rightarrow> string \<Rightarrow> AuthenticateConfig \<Rightarrow> string" where
  "with_ids prefix integration_id auth =
     prefix @ '' Integration ID: '' @ integration_id @ '' Username: '' @ username auth"

text \<open>
  \<open>parsed_xml["DataSet"].get("diffgr:diffgram", {}).get("NewDataSet", {})\<close>, the
  two statements of the second \<open>try\<close> block.
\<close>

definition new_data_set :: "xml_value \<Rightarrow> py_error + xml_value" where
  "new_data_set parsed_xml =
     (case py_getitem parsed_xml ''DataSet'' of
        Inl e \<Rightarrow> Inl e
      | Inr data_set \<Rightarrow>
          (case py_get data_set ''diffgr:diffgram'' (XDict []) of
             Inl e \<Rightarrow> Inl e
           | Inr xml_tag \<Rightarrow> py_get xml_tag ''NewDataSet'' (XDict [])))"

text \<open>
  The dictionary built by the loop over the set of serial numbers: each serial number
  that occurs is mapped to its points, in input order.
\<close>

definition response_per_device :: "DataResponse list \<Rightarrow> (string \<rightharpoonup> DataResponse list)" where
  "response_per_device vehicles =
     (\<lambda>serial_num.
        if serial_num \<in> set (map ats_serial_num vehicles)
        then Some (filter (\<lambda>point. serial_num = ats_serial_num point) vehicles)
        else None)"

definition get_data_endpoint_response ::
  "coercions \<Rightarrow> (string \<Rightarrow> py_error + xml_value) \<Rightarrow> string \<Rightarrow> AuthenticateConfig \<Rightarrow>
   py_error + string \<Rightarrow> py_error + (string \<rightharpoonup> DataResponse list)" where
  "get_data_endpoint_response c xmltodict_parse integration_id auth http_response =
     (case http_response of
        Inl e \<Rightarrow> Inl e
      | Inr response_text \<Rightarrow>
     (case xmltodict_parse response_text of
        Inl e \<Rightarrow>
          (if e = ExpatError \<or> e = ParsingInterrupted
           then Inl (PullObservationsBadXMLException
                  (with_ids ''Error while parsing XML from 'data' endpoint.'' integration_id auth))
           else Inl e)
      | Inr parsed_xml \<Rightarrow>
     (case new_data_set parsed_xml of
        Inl e \<Rightarrow>
          (if e = KeyError
           then Inl (PullObservationsBadXMLException
                  (with_ids ''Error while parsing 'data' response from XML.'' integration_id auth))
           else Inl e)
      | Inr data \<Rightarrow>
          (if truthy data then
             (case py_get data ''Table'' (XList []) of
                Inl e \<Rightarrow> Inl e
              | Inr table \<Rightarrow>
                  (case PullObservationsDataResponse_parse_obj c table of
                     None \<Rightarrow> Inl (PullObservationsBadXMLException
                       (with_ids ''Error while parsing 'PullObservationsDataResponse' response from XML (data).''
                          integration_id auth))
                   | Some vehicles \<Rightarrow> Inr (response_per_device vehicles)))
           else Inr Map.empty))))"

text \<open>
  The transmissions function returns the list of parsed transmissions, or the empty
  dictionary \<open>{}\<close> when there is no row-set.
\<close>

datatype transmissions_result = TransmissionList "TransmissionsResponse list" | EmptyDict

definition get_transmissions_endpoint_response ::
  "coercions \<Rightarrow> (string \<Rightarrow> py_error + xml_value) \<Rightarrow> string \<Rightarrow> AuthenticateConfig \<Rightarrow>
   py_error + string \<Rightarrow> py_error + transmissions_result" where
  "get_transmissions_endpoint_response c xmltodict_parse integration_id auth http_response =
     (case http_response of
        Inl e \<Rightarrow> Inl e
      | Inr response_text \<Rightarrow>
     (case xmltodict_parse response_text of
        Inl e \<Rightarrow>
          (if e = ExpatError \<or> e = ParsingInterrupted
           then Inl (PullObservationsBadXMLException
                  (with_ids ''Error while parsing XML from 'transmissions' endpoint.'' integration_id auth))
           else Inl e)
      | Inr parsed_xml \<Rightarrow>
     (case new_data_set parsed_xml of
        Inl e \<Rightarrow>
          (if e = KeyError
           then Inl (PullObservationsBadXMLException
                  (with_ids ''Error while parsing 'transmissions' response from XML.'' integration_id auth))
           else Inl e)
      | Inr transmissions \<Rightarrow>
          (if truthy transmissions then
             (case py_get transmissions ''Table'' (XList []) of
                Inl e \<Rightarrow> Inl e
              | Inr table \<Rightarrow>
                  (case PullObservationsTransmissionsResponse_parse_obj c table of
                     None \<Rightarrow> Inl (PullObservationsBadXMLException
                       (with_ids ''Error while parsing 'PullObservationsTransmissionsResponse' response from XML (data).''
                          integration_id auth))
                   | Some parsed \<Rightarrow> Inr (TransmissionList parsed)))
           else Inr EmptyDict))))"

subsection \<open>The defects of a row that the specification names\<close>







subsection \<open>The vendor envelope and sample collaborators\<close>

text \<open>
  The parsed form of the vendor's envelope: the \<open>DataSet\<close> wrapper holding the
  \<open>diffgr:diffgram\<close> element, and inside it the \<open>NewDataSet\<close> with its \<open>Table\<close>
  rows.
\<close>

definition envelope :: "xml_value \<Rightarrow> xml_value" where
  "envelope diffgram = XDict [(''DataSet'', XDict [(''diffgr:diffgram'', diffgram)])]"

definition table_document :: "xml_value \<Rightarrow> xml_value" where
  "table_document table = envelope (XDict [(''NewDataSet'', XDict [(''Table'', table)])])"


text \<open>A parser that yields a given outcome, and conversions that know a few strings.\<close>

definition parse_as :: "py_error + xml_value \<Rightarrow> string \<Rightarrow> py_error + xml_value" where
  "parse_as outcome response_text = outcome"










section \<open>Properties of the endpoint functions\<close>

subsection \<open>Auxiliary facts\<close>





























lemmas endpoint_eval = get_data_endpoint_response_def get_transmissions_endpoint_response_def
  parse_as_def table_document_def envelope_def new_data_set_def py_getitem_def py_get_def
  truthy_def PullObservationsDataResponse_parse_obj_def
  PullObservationsTransmissionsResponse_parse_obj_def validate_vehicles_def
  validate_transmissions_def response_per_device_def



text \<open>
  An empty \<open>DataSet\<close> or diffgram element parses to \<open>None\<close>; \<open>.get\<close> on it
  raises \<open>AttributeError\<close>, which neither function catches.
\<close>

lemma empty_wrapper_raises_AttributeError:
  "get_data_endpoint_response c (parse_as (Inr (XDict [(''DataSet'', XNone)]))) integration_id auth
     (Inr response_text) = Inl AttributeError"
  "get_transmissions_endpoint_response c (parse_as (Inr (envelope XNone))) integration_id auth
     (Inr response_text) = Inl AttributeError"
  by (simp_all add: endpoint_eval)

subsection \<open>The parser's error policy\<close>







section \<open>Properties of closest_transmission\<close>

subsection \<open>Auxiliary facts\<close>

lemma closest_transmission_empty:
  "closest_transmission attr [] test_date = Inl IndexError"
  by (simp add: closest_transmission_def py_sorted_def py_last_def)

lemma closest_transmission_parsed_raises:
  "transmissions \<noteq> [] \<Longrightarrow>
   closest_transmission TransmissionsResponse_DateSent transmissions test_date = Inl AttributeError"
  by (cases transmissions) (simp_all add: closest_transmission_def TransmissionsResponse_DateSent_def)

lemmas closest_eval = closest_transmission_def py_sorted_def py_last_def first_dated_def
  dt_ge_def dt_sub_def dt_eq_def is_aware_def instant_def days_def us_per_day_def
  readable_DateSent_def TransmissionsResponse_DateSent_def transmission_sent_at_def naive_at_def
  aware_at_def

lemma closest_transmission_mixed_kinds:
  "closest_transmission readable_DateSent [transmission_sent_at 0, transmission_sent_at 3600000000]
     (aware_at 0 0) = Inl TypeError"
  by (simp add: closest_eval)


lemma dates_of_readable: "dates_of readable_DateSent ts = Inr (map date_sent ts)"
  by (induction ts) (simp_all add: readable_DateSent_def)

lemma select_dated_readable:
  "select_dated readable_DateSent ts d = Inr (filter (\<lambda>t. dt_eq (date_sent t) d) ts)"
  by (induction ts) (simp_all add: readable_DateSent_def)

lemma first_dated_readable:
  assumes "d \<in> date_sent ` set ts"
  shows "\<exists>t \<in> set ts. first_dated readable_DateSent ts d = Inr t"
proof -
  from assms obtain u where u: "u \<in> set ts" "date_sent u = d" by auto
  then have "dt_eq (date_sent u) d" by (simp add: dt_eq_def)
  with u have "u \<in> set (filter (\<lambda>t. dt_eq (date_sent t) d) ts)" by simp
  then obtain t rest where f: "filter (\<lambda>t. dt_eq (date_sent t) d) ts = t # rest"
    by (cases "filter (\<lambda>t. dt_eq (date_sent t) d) ts") auto
  then have "t \<in> set (filter (\<lambda>t. dt_eq (date_sent t) d) ts)" by simp
  then have "t \<in> set ts" by simp
  moreover have "first_dated readable_DateSent ts d = Inr t"
    by (simp add: first_dated_def select_dated_readable f)
  ultimately show ?thesis by blast
qed

lemma scan_dates_readable:
  assumes "\<forall>d \<in> date_sent ` set ts. \<not> is_aware d" and "\<not> is_aware target"
      and "sl \<noteq> []" and "set sl \<subseteq> date_sent ` set ts"
  shows "set ds \<subseteq> date_sent ` set ts \<Longrightarrow> p \<in> date_sent ` set ts \<Longrightarrow>
         \<exists>t \<in> set ts. scan_dates readable_DateSent ts target sl p ds = Inr t"
proof (induction ds arbitrary: p)
  case Nil
  have "last sl \<in> date_sent ` set ts" using assms(3,4) last_in_set by blast
  from first_dated_readable[OF this] assms(3) show ?case by (simp add: py_last_def)
next
  case (Cons d ds)
  have d: "d \<in> date_sent ` set ts" using Cons.prems(1) by simp
  have nd: "\<not> is_aware d" using assms(1) d by blast
  have np: "\<not> is_aware p" using assms(1) Cons.prems(2) by blast
  show ?case
  proof (cases "instant d \<ge> instant target")
    case True
    then show ?thesis
      using nd np assms(2) first_dated_readable[OF d] first_dated_readable[OF Cons.prems(2)]
      by (simp add: dt_ge_def dt_sub_def)
  next
    case False
    have "set ds \<subseteq> date_sent ` set ts" using Cons.prems(1) by simp
    from Cons.IH[OF this d] False nd assms(2) show ?thesis
      by (simp add: dt_ge_def)
  qed
qed

lemma closest_transmission_readable_returns:
  assumes ne: "ts \<noteq> []" and naive: "list_all (\<lambda>t. \<not> is_aware (date_sent t)) ts"
      and target: "\<not> is_aware target"
  shows "\<exists>t \<in> set ts. closest_transmission readable_DateSent ts target = Inr t"
proof -
  define sl where "sl = sort_key instant (map date_sent ts)"
  have all: "\<forall>d \<in> date_sent ` set ts. \<not> is_aware d"
    using naive by (auto simp: list_all_iff)
  then have "list_all (\<lambda>d. \<not> is_aware d) (map date_sent ts)"
    by (simp add: list_all_iff)
  then have srt: "py_sorted (map date_sent ts) = Inr sl"
    by (simp add: py_sorted_def sl_def)
  have sset: "set sl = date_sent ` set ts" by (simp add: sl_def)
  have sne: "sl \<noteq> []"
  proof
    assume "sl = []"
    then have "set sl = {}" by simp
    with sset ne show False by simp
  qed
  have lst: "last sl \<in> date_sent ` set ts" using sne sset last_in_set by blast
  have sub: "set sl \<subseteq> date_sent ` set ts" using sset by simp
  from scan_dates_readable[OF all target sne sub sub lst]
  show ?thesis
    by (simp add: closest_transmission_def dates_of_readable srt py_last_def sne)
qed


subsection \<open>Claims about the nearest-transmission lookup\<close>

text \<open>
  C9. On the empty list \<open>closest_transmission\<close> raises \<open>IndexError\<close>, as the claim
  says. On a non-empty list of the repository's transmissions it does not return an
  element: a single parsed transmission makes it raise \<open>AttributeError\<close>, because the
  element has no \<open>DateSent\<close> attribute. (The lemma
  \<open>closest_transmission_readable_returns\<close> above gives the claimed behaviour for
  elements on which the attribute can be read and all dates are naive.)
\<close>

theorem closest_transmission_raises_on_parsed_transmission:
  "closest_transmission TransmissionsResponse_DateSent ([] :: TransmissionsResponse list) (naive_at 0)
     = Inl IndexError \<and>
   closest_transmission TransmissionsResponse_DateSent [transmission_sent_at 0] (naive_at 0)
     = Inl AttributeError"
  by (simp add: closest_eval)


text \<open>
  C1. Two parsed transmissions, sent at 00:00 of day 0 and 00:00 of day 1, and the target
  01:00 of day 0. On the repository's transmissions the function raises
  \<open>AttributeError\<close> and follows no algorithm. Where the attribute can be read, the
  function compares \<open>(23 h).days = 0\<close> with \<open>|(-1 h).days| = 1\<close> and returns the later
  transmission; the specification's algorithm, with the distances 23 h and 1 h, returns
  the earlier one.
\<close>

theorem closest_transmission_departs_from_lookup:
  "closest_transmission TransmissionsResponse_DateSent
     [transmission_sent_at 0, transmission_sent_at 86400000000] (naive_at 3600000000)
     = Inl AttributeError \<and>
   closest_transmission readable_DateSent
     [transmission_sent_at 0, transmission_sent_at 86400000000] (naive_at 3600000000)
     = Inr (transmission_sent_at 86400000000) \<and>
   findNearestTransmission sent_instant
     [transmission_sent_at 0, transmission_sent_at 86400000000] 3600000000
     = Some (transmission_sent_at 0)"
  by (simp add: closest_eval findNearestTransmission_def sent_instant_def Let_def)


text \<open>
  C2. Two parsed transmissions, sent at 00:00 and 01:00 of the same day, and the target
  00:00, which is the minimum date. On the repository's transmissions the function
  raises \<open>AttributeError\<close>. Where the attribute can be read, \<open>previous_date\<close> is still
  the maximum date when the first date is scanned, both whole-day distances are 0, and
  the transmission sent at 01:00 is returned: neither the smallest date at or after the
  target (00:00, an exact match) nor a date before it (there is none).
\<close>

theorem closest_transmission_misses_neighbours:
  "Min (set (map sent_instant [transmission_sent_at 0, transmission_sent_at 3600000000])) \<le> 0 \<and>
   closest_transmission TransmissionsResponse_DateSent
     [transmission_sent_at 0, transmission_sent_at 3600000000] (naive_at 0)
     = Inl AttributeError \<and>
   closest_transmission readable_DateSent
     [transmission_sent_at 0, transmission_sent_at 3600000000] (naive_at 0)
     = Inr (transmission_sent_at 3600000000) \<and>
   \<not> is_neighbour_date (map sent_instant [transmission_sent_at 0, transmission_sent_at 3600000000])
       0 (sent_instant (transmission_sent_at 3600000000))"
  by (simp add: closest_eval sent_instant_def is_neighbour_date_def dates_before_def
      dates_at_or_after_def)

section \<open>Properties of the offset derivation and the transform\<close>

subsection \<open>Auxiliary facts\<close>

lemma setdefault_apply:
  "setdefault d k v k' = (if k' = k then (case d k of None \<Rightarrow> Some v | Some w \<Rightarrow> Some w) else d k')"
  by (simp add: setdefault_def split: option.splits)

lemma accumulate_find:
  "accumulate acc ts k =
     (case acc k of
        Some v \<Rightarrow> Some v
      | None \<Rightarrow> map_option gmt_offset (find (\<lambda>t. collar_serial_num t = k) ts))"
proof (induction ts arbitrary: acc)
  case Nil
  show ?case by (simp split: option.splits)
next
  case (Cons t ts)
  show ?case
    by (simp add: Cons.IH setdefault_apply split: option.splits)
qed


lemma additional_fields_update [simp]:
  "additional_fields (vehicle\<lparr>date_year_and_julian := x\<rparr>) = additional_fields vehicle"
  by (simp add: additional_fields_def)

lemma transform_vehicle_ok:
  "\<bar>g\<bar> < 24 \<Longrightarrow> transform_vehicle g vehicle = Inr (observation_of (g * us_per_hour) vehicle)"
  by (simp add: transform_vehicle_def py_timezone_def timedelta_hours_def us_per_hour_def
      us_per_day_def observation_of_def replace_tzinfo_def Let_def abs_if split: if_splits)

lemma transform_vehicles_ok:
  "\<bar>g\<bar> < 24 \<Longrightarrow> transform_vehicles g acc vehicles = Inr (acc @ map (observation_of (g * us_per_hour)) vehicles)"
  by (induction vehicles arbitrary: acc) (simp_all add: transform_vehicle_ok)

lemma transform_vehicle_24:
  "\<bar>g\<bar> = 24 \<Longrightarrow> transform_vehicle g vehicle = Inl ValueError"
  by (auto simp add: transform_vehicle_def py_timezone_def timedelta_hours_def us_per_hour_def
      us_per_day_def abs_if split: if_splits)

lemma filter_and_transform_invalid:
  "\<bar>g\<bar> > 24 \<Longrightarrow>
   filter_and_transform serial_num vehicles (Some g) integration_id action_id =
     ([invalid_offset_record serial_num g integration_id action_id],
      Inr (map (observation_of 0) vehicles))"
  using transform_vehicles_ok[of 0 "[]" vehicles]
  by (simp add: filter_and_transform_def)

lemma filter_and_transform_valid:
  "\<bar>g\<bar> < 24 \<Longrightarrow>
   filter_and_transform serial_num vehicles (Some g) integration_id action_id =
     ([], Inr (map (observation_of (g * us_per_hour)) vehicles))"
  using transform_vehicles_ok[of g "[]" vehicles]
  by (simp add: filter_and_transform_def)

lemma filter_and_transform_boundary:
  "\<bar>g\<bar> = 24 \<Longrightarrow>
   filter_and_transform serial_num (vehicle # rest) (Some g) integration_id action_id =
     ([], Inl ValueError)"
  by (simp add: filter_and_transform_def transform_vehicle_24)


subsection \<open>Claims about extract_gmt_offsets and filter_and_transform\<close>

text \<open>
  C4. \<open>extract_gmt_offsets\<close> maps each device identifier to the GMT offset of the
  first transmission for that device in input order (a device with no transmission has
  no entry), whatever later transmissions of the device carry; for the empty list it
  returns the empty map after two warnings, and the caller's lookup with default 0 then
  gives offset 0 for every device.
\<close>

theorem extract_gmt_offsets_first_wins:
  "snd (extract_gmt_offsets transmissions integration_id) device =
     map_option gmt_offset (find (\<lambda>t. collar_serial_num t = device) transmissions) \<and>
   snd (extract_gmt_offsets [] integration_id) = Map.empty \<and>
   map level (fst (extract_gmt_offsets [] integration_id)) = [WARNING, WARNING] \<and>
   dict_get (snd (extract_gmt_offsets [] integration_id)) device (Some 0) = Some 0"
  by (simp add: extract_gmt_offsets_def accumulate_find dict_get_def)


text \<open>
  C8. If the first transmission of a device carries no GMT offset, the device is mapped
  to \<open>None\<close>, not to 0, whatever the later transmissions of the device carry; the
  caller's lookup with default 0 then yields \<open>None\<close>, and \<open>filter_and_transform\<close>
  on it raises \<open>TypeError\<close> instead of returning observations.
\<close>

theorem absent_offset_breaks_transform:
  assumes "find (\<lambda>t. collar_serial_num t = device) transmissions = Some first"
      and "gmt_offset first = None"
  shows "snd (extract_gmt_offsets transmissions integration_id) device = Some None \<and>
         dict_get (snd (extract_gmt_offsets transmissions integration_id)) device (Some 0) = None \<and>
         filter_and_transform device vehicles
           (dict_get (snd (extract_gmt_offsets transmissions integration_id)) device (Some 0))
           integration_id action_id = ([], Inl TypeError)"
proof -
  have ne: "transmissions \<noteq> []" using assms(1) by auto
  have m: "snd (extract_gmt_offsets transmissions integration_id) device = Some None"
    using ne assms by (simp add: extract_gmt_offsets_def accumulate_find)
  then have g: "dict_get (snd (extract_gmt_offsets transmissions integration_id)) device (Some 0) = None"
    by (simp add: dict_get_def)
  show ?thesis unfolding g using m by (simp add: filter_and_transform_def)
qed

theorem absent_offset_breaks_transform_witness:
  "find (\<lambda>t. collar_serial_num t = ''A'') [transmission_row ''A'' None, transmission_row ''A'' (Some 3)]
     = Some (transmission_row ''A'' None) \<and>
   gmt_offset (transmission_row ''A'' None) = None \<and>
   snd (extract_gmt_offsets [transmission_row ''A'' None, transmission_row ''A'' (Some 3)] ''i'') ''A'' = Some None \<and>
   filter_and_transform ''A'' [vehicle_row ''A'' 0]
     (dict_get (snd (extract_gmt_offsets [transmission_row ''A'' None, transmission_row ''A'' (Some 3)] ''i'')) ''A'' (Some 0))
     ''i'' ''pull_observations'' = ([], Inl TypeError)"
proof -
  have h1: "find (\<lambda>t. collar_serial_num t = ''A'') [transmission_row ''A'' None, transmission_row ''A'' (Some 3)]
     = Some (transmission_row ''A'' None)"
    by (simp add: transmission_row_def)
  have h2: "gmt_offset (transmission_row ''A'' None) = None" by (simp add: transmission_row_def)
  from absent_offset_breaks_transform [OF h1 h2, of "''i''" "[vehicle_row ''A'' 0]" "''pull_observations''"] h1 h2
  show ?thesis by blast
qed


text \<open>
  C3. An offset of exactly 24 (or \<open>-24\<close>) passes the guard \<open>abs(gmt_offset) > 24\<close>
  and reaches \<open>datetime.timezone\<close>, which accepts only offsets strictly inside 24
  hours: with one vehicle to transform the call raises \<open>ValueError\<close> and yields no
  observation. (The lemmas \<open>filter_and_transform_invalid\<close> and
  \<open>filter_and_transform_valid\<close> above give the behaviour the claim describes for
  offsets beyond 24 and strictly inside 24.)
\<close>

theorem filter_and_transform_offset_24_raises:
  "filter_and_transform ''A'' [vehicle_row ''A'' 0] (Some 24) ''i'' ''pull_observations'' = ([], Inl ValueError)"
  by (simp add: filter_and_transform_def transform_vehicle_def py_timezone_def timedelta_hours_def us_per_hour_def
      us_per_day_def)

section \<open>Properties of action_pull_observations\<close>

subsection \<open>Auxiliary facts\<close>

lemma upload_file_Inr:
  "upload_file iid path name md s = (s', Inr u) \<Longrightarrow>
   \<exists>text. local_files s path = Some text \<and>
     s' = s\<lparr>file_storage := file_storage s @
            [\<lparr>blob_integration_id = iid, blob_name = name, blob_content = text, blob_metadata = md\<rparr>]\<rparr>"
  by (auto simp: upload_file_def split: option.splits)

lemma pull_attempt_success:
  assumes "pull_attempt env integ n s = (s', Inr u)"
  shows "\<exists>auth xml_t xml_d.
           get_auth_config env = Inr auth \<and>
           transmissions_fetch env n = Inr xml_t \<and>
           data_fetch env n = Inr xml_d \<and>
           transmissions_blob integ (username auth) (utc_timestamp env n) xml_t \<in> set (file_storage s') \<and>
           data_points_blob integ (username auth) (utc_timestamp env n) xml_d \<in> set (file_storage s') \<and>
           utc_timestamp env n @ ''_'' @ id_str integ @ ''_data_points.xml'' \<in> state_manager s' PENDING_FILES"
  using assms
  by (auto simp: pull_attempt_def Let_def upload_file_def write_file_def group_add_def
      transmissions_blob_def data_points_blob_def
      split: sum.splits option.splits prod.splits if_splits)

lemma retry_context_success:
  "retry_context k env integ n s = (s', Inr u) \<Longrightarrow>
   \<exists>m s0. n \<le> m \<and> m \<le> n + k \<and> pull_attempt env integ m s0 = (s', Inr u)"
proof (induction k arbitrary: n s)
  case 0
  then show ?case by auto
next
  case (Suc k)
  obtain s1 r where pa: "pull_attempt env integ n s = (s1, r)" by (cases "pull_attempt env integ n s")
  show ?case
  proof (cases r)
    case (Inr v)
    with Suc.prems pa have "pull_attempt env integ n s = (s', Inr u)" by simp
    then show ?thesis by (intro exI[of _ n] exI[of _ s]) simp
  next
    case (Inl e)
    with Suc.prems pa have "retry_context k env integ (Suc n) s1 = (s', Inr u)"
      by (simp split: if_splits)
    from Suc.IH[OF this] obtain m s0 where "Suc n \<le> m" "m \<le> Suc n + k" "pull_attempt env integ m s0 = (s', Inr u)"
      by blast
    then show ?thesis by (intro exI[of _ m] exI[of _ s0]) simp
  qed
qed

lemma action_success:
  assumes "action_pull_observations env integ cfg s = (s', Inr result)"
  shows "result = [(''observations_extracted'', 0)] \<and>
         (\<exists>s1 s2. retry_context 2 env integ 1 s1 = (s2, Inr ()) \<and>
                  file_storage s' = file_storage s2 \<and> state_manager s' = state_manager s2)"
proof -
  define s0 where "s0 = log_call \<lparr>level = INFO,
                 message = ''Executing pull_observations action with integration '' @ integration_repr integ @
                           '' and action_config '' @ cfg @ ''...'',
                 extra = []\<rparr> s"
  obtain s2 r where rc: "retry_context 2 env integ 1 s0 = (s2, r)"
    by (cases "retry_context 2 env integ 1 s0")
  have unf: "action_pull_observations env integ cfg s =
      (case (s2, r) of
           (s', Inl e) \<Rightarrow>
             (if is_HTTPError e
              then (log_call \<lparr>level = ERROR,
                      message = ''Error fetching data points/transmissions from ATS. Integration ID: '' @
                                id_str integ @ '' Exception: '' @ str_error e,
                      extra = [(''integration_id'', Str (id_str integ)),
                               (''attention_needed'', Bool True)]\<rparr> s',
                    Inl e)
              else (s', Inl e))
         | (s', Inr _) \<Rightarrow>
             (log_call \<lparr>level = INFO,
                message = ''-- Observations pulled with success for integration ID: '' @
                          id_str integ @ ''. --'',
                extra = []\<rparr> s',
              Inr [(''observations_extracted'', 0)]))"
    unfolding action_pull_observations_def Let_def s0_def[symmetric] rc ..
  show ?thesis
  proof (cases r)
    case (Inl e)
    with assms unf show ?thesis by (simp split: if_splits)
  next
    case (Inr v)
    with assms unf have res: "result = [(''observations_extracted'', 0)]"
      and st: "s' = log_call \<lparr>level = INFO,
                message = ''-- Observations pulled with success for integration ID: '' @
                          id_str integ @ ''. --'',
                extra = []\<rparr> s2"
      by simp_all
    have "retry_context 2 env integ 1 s0 = (s2, Inr ())" using rc Inr by simp
    moreover have "file_storage s' = file_storage s2" "state_manager s' = state_manager s2"
      unfolding st by (simp_all add: log_call_def)
    ultimately show ?thesis using res by blast
  qed
qed

lemmas pull_eval = action_pull_observations_def retry_context.simps pull_attempt_def upload_file_def
  write_file_def group_add_def log_call_def is_HTTPError_def numeral_2_eq_2 Let_def


subsection \<open>Claims about the pull action\<close>

text \<open>
  C7. Every successful run of \<open>action_pull_observations\<close> ends with an attempt (the
  first, second or third) whose two fetched texts are both in the file storage,
  unchanged, each under the attempt's file name and tagged with the integration
  identifier and the vendor username, and whose data-points file name is a member of
  the pending group.
\<close>

theorem pull_persists_both_payloads:
  assumes "action_pull_observations env integ cfg s = (s', Inr result)"
  shows "\<exists>n auth xml_t xml_d.
           1 \<le> n \<and> n \<le> 3 \<and>
           get_auth_config env = Inr auth \<and>
           transmissions_fetch env n = Inr xml_t \<and>
           data_fetch env n = Inr xml_d \<and>
           transmissions_blob integ (username auth) (utc_timestamp env n) xml_t \<in> set (file_storage s') \<and>
           data_points_blob integ (username auth) (utc_timestamp env n) xml_d \<in> set (file_storage s') \<and>
           utc_timestamp env n @ ''_'' @ id_str integ @ ''_data_points.xml'' \<in> state_manager s' PENDING_FILES"
proof -
  from action_success[OF assms] obtain s1 s2 where
    rc: "retry_context 2 env integ 1 s1 = (s2, Inr ())" and
    fs: "file_storage s' = file_storage s2" and sm: "state_manager s' = state_manager s2"
    by blast
  from retry_context_success[OF rc] obtain m s0 where
    m: "1 \<le> m" "m \<le> 1 + 2" and pa: "pull_attempt env integ m s0 = (s2, Inr ())"
    by blast
  from pull_attempt_success[OF pa] obtain auth xml_t xml_d where
    "get_auth_config env = Inr auth" "transmissions_fetch env m = Inr xml_t" "data_fetch env m = Inr xml_d"
    "transmissions_blob integ (username auth) (utc_timestamp env m) xml_t \<in> set (file_storage s2)"
    "data_points_blob integ (username auth) (utc_timestamp env m) xml_d \<in> set (file_storage s2)"
    "utc_timestamp env m @ ''_'' @ id_str integ @ ''_data_points.xml'' \<in> state_manager s2 PENDING_FILES"
    by blast
  with m show ?thesis unfolding fs sm
    by (intro exI[of _ m] exI[of _ auth] exI[of _ xml_t] exI[of _ xml_d]) simp
qed



theorem pull_persists_both_payloads_witness:
  "\<exists>s' result n auth xml_t xml_d.
     action_pull_observations flaky_environment integration_7 ''cfg'' no_services = (s', Inr result) \<and>
     1 \<le> n \<and> n \<le> 3 \<and>
     get_auth_config flaky_environment = Inr auth \<and>
     transmissions_fetch flaky_environment n = Inr xml_t \<and>
     data_fetch flaky_environment n = Inr xml_d \<and>
     transmissions_blob integration_7 (username auth) (utc_timestamp flaky_environment n) xml_t
       \<in> set (file_storage s') \<and>
     data_points_blob integration_7 (username auth) (utc_timestamp flaky_environment n) xml_d
       \<in> set (file_storage s') \<and>
     utc_timestamp flaky_environment n @ ''_'' @ id_str integration_7 @ ''_data_points.xml''
       \<in> state_manager s' PENDING_FILES"
proof -
  have "\<exists>s' r. action_pull_observations flaky_environment integration_7 ''cfg'' no_services = (s', Inr r)"
    by (simp add: pull_eval flaky_environment_def integration_7_def no_services_def)
  then obtain s' r where
    run: "action_pull_observations flaky_environment integration_7 ''cfg'' no_services = (s', Inr r)"
    by blast
  from pull_persists_both_payloads [OF run] run show ?thesis by blast
qed


text \<open>
  C10. Whenever \<open>action_pull_observations\<close> succeeds, its result is
  \<open>{'observations_extracted': 0}\<close>, whatever the fetched payloads contain.
\<close>

theorem pull_reports_zero_extracted:
  assumes "action_pull_observations env integ cfg s = (s', Inr result)"
  shows "result = [(''observations_extracted'', 0)]"
  using action_success[OF assms] by blast


theorem pull_reports_zero_extracted_witness:
  "\<exists>s'. action_pull_observations calm_environment integration_7 ''cfg'' no_services
           = (s', Inr [(''observations_extracted'', 0)])"
proof -
  have "\<exists>s' r. action_pull_observations calm_environment integration_7 ''cfg'' no_services = (s', Inr r)"
    by (simp add: pull_eval calm_environment_def integration_7_def no_services_def)
  then obtain s' r where
    run: "action_pull_observations calm_environment integration_7 ''cfg'' no_services = (s', Inr r)"
    by blast
  from pull_reports_zero_extracted [OF run] run show ?thesis by blast
qed

section \<open>Properties of the staging file state machine\<close>

lemma group_names_distinct:
  "PENDING_FILES \<noteq> IN_PROGRESS_FILES" "PENDING_FILES \<noteq> PROCESSED_FILES" "IN_PROGRESS_FILES \<noteq> PROCESSED_FILES"
  by (simp_all add: PENDING_FILES_def IN_PROGRESS_FILES_def PROCESSED_FILES_def)


text \<open>
  C6. For every file name and requested target state: a file that is in none of the
  three sets is added to Pending and to no other set, its stored metadata becomes
  pending, and the result says the file was not found and is being moved to pending;
  and when the file is tracked but the store's move raises, the call still returns a
  result, with \<open>file_status\<close> pending and the message \<open>Error setting file status\<close>.
\<close>

theorem set_file_status_fallbacks:
  "(current_status (groups s) filename = None \<longrightarrow>
      (let (s', result) = action_set_file_status move iid filename target s in
         filename \<in> groups s' PENDING_FILES \<and>
         filename \<notin> groups s' IN_PROGRESS_FILES \<and>
         filename \<notin> groups s' PROCESSED_FILES \<and>
         blob_status s' (iid, filename) = Some [(''status'', ''pending'')] \<and>
         result = \<lparr>file_status = ''Not found'',
                   status_message = ''File '' @ [CHR 0x27] @ filename @ [CHR 0x27] @
                             '' not found in any group. Moving file to PENDING status.''\<rparr>)) \<and>
   (current_status (groups s) filename = Some current \<and>
    move (status_group current) (status_group target) [filename] (groups s) = Inl e \<longrightarrow>
      snd (action_set_file_status move iid filename target s) =
        \<lparr>file_status = ''pending'', status_message = ''Error setting file status''\<rparr>)"
proof (intro conjI impI)
  assume nf: "current_status (groups s) filename = None"
  then have "filename \<notin> groups s PENDING_FILES" "filename \<notin> groups s IN_PROGRESS_FILES"
      "filename \<notin> groups s PROCESSED_FILES"
    by (simp_all add: current_status_def split: if_splits)
  then show "let (s', result) = action_set_file_status move iid filename target s in
         filename \<in> groups s' PENDING_FILES \<and>
         filename \<notin> groups s' IN_PROGRESS_FILES \<and>
         filename \<notin> groups s' PROCESSED_FILES \<and>
         blob_status s' (iid, filename) = Some [(''status'', ''pending'')] \<and>
         result = \<lparr>file_status = ''Not found'',
                   status_message = ''File '' @ [CHR 0x27] @ filename @ [CHR 0x27] @
                             '' not found in any group. Moving file to PENDING status.''\<rparr>"
    using nf group_names_distinct
    by (simp add: action_set_file_status_def status_value_def)
next
  assume "current_status (groups s) filename = Some current \<and>
    move (status_group current) (status_group target) [filename] (groups s) = Inl e"
  then show "snd (action_set_file_status move iid filename target s) =
        \<lparr>file_status = ''pending'', status_message = ''Error setting file status''\<rparr>"
    by (simp add: action_set_file_status_def status_value_def)
qed


theorem set_file_status_fallbacks_witness:
  "current_status (groups empty_staging) ''non_existent_file.xml'' = None \<and>
   (let (s', result) = action_set_file_status group_move ''7'' ''non_existent_file.xml'' IN_PROGRESS empty_staging in
      ''non_existent_file.xml'' \<in> groups s' PENDING_FILES \<and>
      ''non_existent_file.xml'' \<notin> groups s' IN_PROGRESS_FILES \<and>
      blob_status s' (''7'', ''non_existent_file.xml'') = Some [(''status'', ''pending'')] \<and>
      file_status result = ''Not found'') \<and>
   current_status (groups one_pending) ''test_file.xml'' = Some PENDING \<and>
   group_move_unavailable (status_group PENDING) (status_group IN_PROGRESS) [''test_file.xml''] (groups one_pending)
     = Inl (HTTPError ''Test exception'') \<and>
   snd (action_set_file_status group_move_unavailable ''7'' ''test_file.xml'' IN_PROGRESS one_pending) =
     \<lparr>file_status = ''pending'', status_message = ''Error setting file status''\<rparr>"
proof -
  have h1: "current_status (groups empty_staging) ''non_existent_file.xml'' = None"
    by (simp add: current_status_def empty_staging_def)
  have h2: "current_status (groups one_pending) ''test_file.xml'' = Some PENDING"
    by (simp add: current_status_def one_pending_def)
  have h3: "group_move_unavailable (status_group PENDING) (status_group IN_PROGRESS) [''test_file.xml'']
              (groups one_pending) = Inl (HTTPError ''Test exception'')"
    by (simp add: group_move_unavailable_def)
  have a: "let (s', result) = action_set_file_status group_move ''7'' ''non_existent_file.xml'' IN_PROGRESS empty_staging in
      ''non_existent_file.xml'' \<in> groups s' PENDING_FILES \<and>
      ''non_existent_file.xml'' \<notin> groups s' IN_PROGRESS_FILES \<and>
      blob_status s' (''7'', ''non_existent_file.xml'') = Some [(''status'', ''pending'')] \<and>
      file_status result = ''Not found''"
    using set_file_status_fallbacks [of empty_staging "''non_existent_file.xml''" group_move "''7''" IN_PROGRESS] h1
    by (auto simp: Let_def split: prod.splits)
  have b: "snd (action_set_file_status group_move_unavailable ''7'' ''test_file.xml'' IN_PROGRESS one_pending) =
     \<lparr>file_status = ''pending'', status_message = ''Error setting file status''\<rparr>"
    using set_file_status_fallbacks [of one_pending "''test_file.xml''" group_move_unavailable "''7''" IN_PROGRESS PENDING
                 "HTTPError ''Test exception''"] h2 h3
    by blast
  from h1 a h2 h3 b show ?thesis by blast
qed

end
